theory Spec2Isabelle
  imports Main
begin

section \<open>Sockets\<close>

text \<open>
  Both programs talk to WebSocket objects: the relay to the sockets of the \<open>ws\<close> package,
  the extension to the browser's \<open>WebSocket\<close>. A socket is modelled by what the programs
  read from it (\<open>readyState\<close>) and by what they did to it: the frames handed to \<open>send\<close>,
  oldest first, and the arguments of the \<open>close\<close> call that started the closing handshake
  (\<open>Some None\<close> is a \<open>close()\<close> without arguments).
\<close>

datatype readyState = CONNECTING | OPEN | CLOSING | CLOSED

record 'f socket =
  readyState :: readyState
  sent :: "'f list"
  closing :: "(nat \<times> string) option option"

definition newSocket :: "readyState \<Rightarrow> 'f socket" where
  "newSocket st = \<lparr>readyState = st, sent = [], closing = None\<rparr>"

text \<open>
  \<open>send\<close> on a socket that is not open transmits nothing; \<open>close\<close> starts the closing
  handshake of an open (or still connecting) socket and does nothing on a socket that is
  closing or closed already. Both are the platform's behaviour, not code of the repository.
\<close>

definition socket_send :: "'f \<Rightarrow> 'f socket \<Rightarrow> 'f socket" where
  "socket_send d s = (if readyState s = OPEN then s\<lparr>sent := sent s @ [d]\<rparr> else s)"

definition socket_close :: "(nat \<times> string) option \<Rightarrow> 'f socket \<Rightarrow> 'f socket" where
  "socket_close args s =
     (if readyState s = OPEN \<or> readyState s = CONNECTING
      then s\<lparr>readyState := CLOSING, closing := Some args\<rparr> else s)"

section \<open>The relay server (class CDPWebSocketRelay)\<close>

text \<open>
  The listeners that \<open>handleExtensionConnection\<close> and \<open>handleBrowserConnection\<close> register
  on a socket are closures over the relay and the socket; \<open>role\<close> names which of the two
  sets of listeners a socket carries. Sockets are identified by a number: the server
  creates a new socket object for every connection.
\<close>

datatype role = ExtensionRole | BrowserRole

record relay =
  extensionSocket :: "nat option"
  browserSocket :: "nat option"
  extensionToken :: string
  browserToken :: string
  waiter :: "bool option"
  listening :: bool
  wsStore :: "nat \<Rightarrow> string socket"
  wsRole :: "nat \<rightharpoonup> role"
  nextWs :: nat
  debugLogger :: "string list"

text \<open>
  A URL as \<open>new URL\<close> parses it: host name, path and the query parameters in their
  order. \<open>searchParams.get\<close> returns the first value of a name, or \<open>null\<close> (here
  \<open>None\<close>) when the query does not have it. Parsing itself is the platform's.
\<close>

record URL =
  hostname :: string
  pathname :: string
  searchParams :: "(string \<times> string) list"

definition searchParams_get :: "URL \<Rightarrow> string \<Rightarrow> string option" where
  "searchParams_get url name = map_of (searchParams url) name"

definition kExtensionPath :: string where
  "kExtensionPath = ''/extension''"

definition kBrowserPath :: string where
  "kBrowserPath = ''/browser''"

definition debugLog_relay :: "string \<Rightarrow> relay \<Rightarrow> relay" where
  "debugLog_relay msg r = r\<lparr>debugLogger := debugLogger r @ [msg]\<rparr>"

definition ws_send :: "nat \<Rightarrow> string \<Rightarrow> relay \<Rightarrow> relay" where
  "ws_send ws d r = r\<lparr>wsStore := (wsStore r)(ws := socket_send d (wsStore r ws))\<rparr>"

definition ws_close :: "nat \<Rightarrow> (nat \<times> string) option \<Rightarrow> relay \<Rightarrow> relay" where
  "ws_close ws args r = r\<lparr>wsStore := (wsStore r)(ws := socket_close args (wsStore r ws))\<rparr>"

text \<open>\<open>this._extensionSocket?.readyState === WebSocket.OPEN\<close>, and the same for a client.\<close>

definition isOpen :: "relay \<Rightarrow> nat option \<Rightarrow> bool" where
  "isOpen r so = (case so of None \<Rightarrow> False | Some s \<Rightarrow> readyState (wsStore r s) = OPEN)"

text \<open>The first statement of \<open>handleExtensionConnection\<close>: an open predecessor is closed.\<close>

definition closePrevious :: "relay \<Rightarrow> relay" where
  "closePrevious r =
     (case extensionSocket r of
        None \<Rightarrow> r
      | Some old \<Rightarrow>
          if readyState (wsStore r old) = OPEN
          then ws_close old (Some (1000, ''New extension connection established''))
                 (debugLog_relay ''Closing previous extension connection.'' r)
          else r)"

definition resolveWaiter :: "relay \<Rightarrow> relay" where
  "resolveWaiter r = (case waiter r of None \<Rightarrow> r | Some _ \<Rightarrow> r\<lparr>waiter := Some True\<rparr>)"

definition handleExtensionConnection :: "relay \<Rightarrow> nat \<Rightarrow> relay" where
  "handleExtensionConnection r ws =
     (let r1 = closePrevious r;
          r2 = r1\<lparr>extensionSocket := Some ws\<rparr>;
          r3 = r2\<lparr>wsRole := (wsRole r2)(ws \<mapsto> ExtensionRole)\<rparr>
      in resolveWaiter r3)"

definition handleBrowserConnection :: "relay \<Rightarrow> nat \<Rightarrow> relay" where
  "handleBrowserConnection r ws =
     (let r1 = r\<lparr>browserSocket := Some ws\<rparr>;
          r2 = debugLog_relay ''Browser client connected.'' r1
      in r2\<lparr>wsRole := (wsRole r2)(ws \<mapsto> BrowserRole)\<rparr>)"

definition onConnection :: "relay \<Rightarrow> nat \<Rightarrow> URL \<Rightarrow> relay" where
  "onConnection r ws url =
     (if pathname url = kExtensionPath then
        (if searchParams_get url ''token'' \<noteq> Some (extensionToken r)
         then ws_close ws (Some (4001, ''Invalid token''))
                (debugLog_relay ''Invalid token for extension connection.'' r)
         else handleExtensionConnection r ws)
      else if pathname url = kBrowserPath then
        (if searchParams_get url ''token'' \<noteq> Some (browserToken r)
         then ws_close ws (Some (4001, ''Invalid token''))
                (debugLog_relay ''Invalid token for browser connection.'' r)
         else handleBrowserConnection r ws)
      else ws_close ws (Some (4001, ''Invalid path''))
             (debugLog_relay (''Invalid path for connection: '' @ pathname url) r))"

subsection \<open>The listeners of an extension socket\<close>

definition extension_onmessage :: "relay \<Rightarrow> nat \<Rightarrow> string \<Rightarrow> relay" where
  "extension_onmessage r ws d =
     (case browserSocket r of
        None \<Rightarrow> r
      | Some b \<Rightarrow> if readyState (wsStore r b) = OPEN then ws_send b d r else r)"

definition extension_onclose :: "relay \<Rightarrow> nat \<Rightarrow> relay" where
  "extension_onclose r ws =
     debugLog_relay ''Extension disconnected.''
       (if extensionSocket r = Some ws then r\<lparr>extensionSocket := None\<rparr> else r)"

definition extension_onerror :: "relay \<Rightarrow> nat \<Rightarrow> relay" where
  "extension_onerror r ws = debugLog_relay ''Error on extension socket:'' r"

subsection \<open>The listeners of a client socket\<close>

definition browser_onmessage :: "relay \<Rightarrow> nat \<Rightarrow> string \<Rightarrow> relay" where
  "browser_onmessage r ws d =
     (case extensionSocket r of
        None \<Rightarrow> ws_close ws (Some (4001, ''No extension client connected'')) r
      | Some e \<Rightarrow>
          if readyState (wsStore r e) = OPEN then ws_send e d r
          else ws_close ws (Some (4001, ''No extension client connected'')) r)"

definition browser_onclose :: "relay \<Rightarrow> nat \<Rightarrow> relay" where
  "browser_onclose r ws = debugLog_relay ''Browser disconnected.'' (r\<lparr>browserSocket := None\<rparr>)"

definition browser_onerror :: "relay \<Rightarrow> nat \<Rightarrow> relay" where
  "browser_onerror r ws = debugLog_relay ''Error on browser socket:'' r"

subsection \<open>The relay driven by its events\<close>

text \<open>
  What the server and its sockets can make the relay do. A connection brings a new, open
  socket; a frame is delivered to a socket that has not closed yet; the close event of a
  socket comes once, after the socket has reached \<open>CLOSED\<close>. \<open>Shutdown\<close> is the method
  \<open>close()\<close> of the relay.
\<close>

datatype relayEvent =
    Connection URL
  | Message nat string
  | Closed nat
  | Failed nat
  | WaitForConnection
  | Shutdown

definition emit_message :: "relay \<Rightarrow> nat \<Rightarrow> string \<Rightarrow> relay" where
  "emit_message r ws d =
     (if readyState (wsStore r ws) = CLOSED then r
      else case wsRole r ws of
             None \<Rightarrow> r
           | Some ExtensionRole \<Rightarrow> extension_onmessage r ws d
           | Some BrowserRole \<Rightarrow> browser_onmessage r ws d)"

definition emit_close :: "relay \<Rightarrow> nat \<Rightarrow> relay" where
  "emit_close r ws =
     (if readyState (wsStore r ws) = CLOSED then r
      else let r1 = r\<lparr>wsStore := (wsStore r)(ws := (wsStore r ws)\<lparr>readyState := CLOSED\<rparr>)\<rparr>
           in case wsRole r1 ws of
                None \<Rightarrow> r1
              | Some ExtensionRole \<Rightarrow> extension_onclose r1 ws
              | Some BrowserRole \<Rightarrow> browser_onclose r1 ws)"

definition emit_error :: "relay \<Rightarrow> nat \<Rightarrow> relay" where
  "emit_error r ws =
     (case wsRole r ws of
        None \<Rightarrow> r
      | Some ExtensionRole \<Rightarrow> extension_onerror r ws
      | Some BrowserRole \<Rightarrow> browser_onerror r ws)"

definition accept :: "relay \<Rightarrow> URL \<Rightarrow> relay" where
  "accept r url =
     (let ws = nextWs r;
          r1 = r\<lparr>wsStore := (wsStore r)(ws := newSocket OPEN), nextWs := Suc ws\<rparr>
      in onConnection r1 ws url)"

definition close_relay :: "relay \<Rightarrow> relay" where
  "close_relay r =
     (let r1 = r\<lparr>listening := False\<rparr>;
          r2 = (case browserSocket r1 of None \<Rightarrow> r1 | Some b \<Rightarrow> ws_close b None r1);
          r3 = r2\<lparr>browserSocket := None\<rparr>;
          r4 = (case extensionSocket r3 of None \<Rightarrow> r3 | Some e \<Rightarrow> ws_close e None r3)
      in r4\<lparr>extensionSocket := None\<rparr>)"

definition waitForConnection :: "relay \<Rightarrow> relay" where
  "waitForConnection r = r\<lparr>waiter := Some False\<rparr>"

fun relay_step :: "relay \<Rightarrow> relayEvent \<Rightarrow> relay" where
  "relay_step r (Connection url) = accept r url"
| "relay_step r (Message ws d) = emit_message r ws d"
| "relay_step r (Closed ws) = emit_close r ws"
| "relay_step r (Failed ws) = emit_error r ws"
| "relay_step r WaitForConnection = waitForConnection r"
| "relay_step r Shutdown = close_relay r"

text \<open>The relay as the constructor leaves it, with the two tokens it drew.\<close>

definition newRelay :: "string \<Rightarrow> string \<Rightarrow> relay" where
  "newRelay et bt =
     \<lparr>extensionSocket = None, browserSocket = None, extensionToken = et, browserToken = bt,
      waiter = None, listening = False, wsStore = (\<lambda>_. newSocket CLOSED), wsRole = Map.empty,
      nextWs = 0, debugLogger = []\<rparr>"

definition run :: "relay \<Rightarrow> relayEvent list \<Rightarrow> relay" where
  "run r evs = foldl relay_step r evs"

text \<open>
  In every state the relay reaches, an open socket that carries the extension listeners is
  the stored extension socket, and no listeners sit on sockets that do not exist yet.
\<close>

definition relay_inv :: "relay \<Rightarrow> bool" where
  "relay_inv r \<longleftrightarrow>
     (\<forall>s. wsRole r s = Some ExtensionRole \<and> readyState (wsStore r s) = OPEN
          \<longrightarrow> extensionSocket r = Some s) \<and>
     (\<forall>s. nextWs r \<le> s \<longrightarrow> wsRole r s = None) \<and>
     (\<forall>s. extensionSocket r = Some s \<longrightarrow> s < nextWs r)"

text \<open>Example states: a relay with both legs connected, and one with a client only.\<close>

definition relayURL :: "string \<Rightarrow> string \<Rightarrow> URL" where
  "relayURL path tok = \<lparr>hostname = ''localhost'', pathname = path, searchParams = [(''token'', tok)]\<rparr>"

definition paired_relay :: relay where
  "paired_relay =
     run (newRelay ''tokenE'' ''tokenB'')
       [Connection (relayURL ''/browser'' ''tokenB''),
        Connection (relayURL ''/extension'' ''tokenE'')]"

definition client_only_relay :: relay where
  "client_only_relay =
     run (newRelay ''tokenE'' ''tokenB'')
       [Connection (relayURL ''/browser'' ''tokenB'')]"

section \<open>The extension (classes Extension and CDPAdapter)\<close>

subsection \<open>JavaScript values\<close>

text \<open>
  The values that pass through the adapter: what \<open>JSON.parse\<close> returns, plus
  \<open>undefined\<close> for a property that is not there. Numbers are only copied, never computed
  with. An object lists each key once, in the order of the object literal.
\<close>

datatype js =
    JUndefined
  | JNull
  | JBool bool
  | JNumber int
  | JString string
  | JArray "js list"
  | JObject "(string \<times> js) list"

datatype jsError = TypeError | SyntaxError | DebuggerError string

text \<open>
  Reading a property: \<open>null\<close> and \<open>undefined\<close> throw a \<open>TypeError\<close>, an object gives the
  value of the key or \<open>undefined\<close>, and every other value gives \<open>undefined\<close> for the
  names the adapter reads (\<open>method\<close>, \<open>id\<close>, \<open>params\<close>, \<open>sessionId\<close>).
\<close>

fun readProp :: "js \<Rightarrow> string \<Rightarrow> js" where
  "readProp (JObject fs) k = (case map_of fs k of None \<Rightarrow> JUndefined | Some v \<Rightarrow> v)"
| "readProp _ k = JUndefined"

fun getProp :: "js \<Rightarrow> string \<Rightarrow> jsError + js" where
  "getProp JNull k = Inl TypeError"
| "getProp JUndefined k = Inl TypeError"
| "getProp v k = Inr (readProp v k)"

fun truthy :: "js \<Rightarrow> bool" where
  "truthy JUndefined = False"
| "truthy JNull = False"
| "truthy (JBool b) = b"
| "truthy (JNumber n) = (n \<noteq> 0)"
| "truthy (JString s) = (s \<noteq> [])"
| "truthy (JArray _) = True"
| "truthy (JObject _) = True"

text \<open>
  The payload of a message event: a \<open>Blob\<close> for a binary frame, a string for a text frame.
  \<open>event.data.text()\<close> gives the text of a blob; a string has no method \<open>text\<close>, so the
  call throws a \<open>TypeError\<close>. \<open>JSON.parse\<close> is the platform's and is a parameter of the
  model: \<open>None\<close> is its \<open>SyntaxError\<close>.
\<close>

datatype messageData = Blob string | Text string

definition decode :: "(string \<Rightarrow> js option) \<Rightarrow> messageData \<Rightarrow> jsError + js" where
  "decode JSON_parse d =
     (case d of
        Text _ \<Rightarrow> Inl TypeError
      | Blob t \<Rightarrow> (case JSON_parse t of None \<Rightarrow> Inl SyntaxError | Some m \<Rightarrow> Inr m))"

subsection \<open>The state of the extension and of the browser around it\<close>

text \<open>
  Function objects made by \<open>bind\<close> have an identity (\<open>fid\<close>), the method they call and
  the adapter they are bound to. The two callbacks of an adapter are closures; the
  constructor installs empty ones and \<open>onTabsUpdated\<close> replaces them by closures over
  the tab and the socket of the bridge.
\<close>

datatype handler = OnDebuggerEvent | OnDebuggerDetach

record boundFn =
  fid :: nat
  target :: handler
  self :: nat

datatype dispatchFn = DispatchNothing | DispatchToSocket nat

datatype onCloseFn = CloseNothing | CloseBridge nat nat

record CDPAdapter =
  debuggee :: nat
  onClose :: onCloseFn
  dispatch :: dispatchFn

datatype consoleArg = LogValue js | LogError jsError | LogTab nat

datatype debuggerCall = Attach nat string | Detach nat | SendCommand nat js js

text \<open>
  \<open>attached\<close> are the tabs the debugger is attached to, \<open>debuggerCalls\<close> the calls made
  to \<open>chrome.debugger\<close> in their order, \<open>onEvent\<close> and \<open>onDetach\<close> the listeners
  registered with the two events of \<open>chrome.debugger\<close>, \<open>heap\<close> the adapter objects,
  \<open>adapters\<close> the map of the extension from tab to adapter, \<open>socketListeners\<close> the
  adapter and target identity that the listeners of a socket close over, \<open>tabUpdates\<close>
  the calls of \<open>chrome.tabs.update\<close> and \<open>consentListeners\<close> the tabs that wait for the
  approval of the user, with the relay address they carry.
\<close>

record world =
  console :: "(string \<times> consoleArg list) list"
  userAgent :: string
  attached :: "nat set"
  debuggerCalls :: "debuggerCall list"
  onEvent :: "boundFn list"
  onDetach :: "boundFn list"
  nextFn :: nat
  heap :: "nat \<Rightarrow> CDPAdapter"
  nextAdapter :: nat
  adapters :: "nat \<rightharpoonup> nat"
  sockets :: "nat \<Rightarrow> js socket"
  socketURL :: "nat \<rightharpoonup> string"
  socketListeners :: "nat \<rightharpoonup> nat \<times> js \<times> js"
  nextSocket :: nat
  tabUpdates :: "(nat \<times> string) list"
  consentListeners :: "(nat \<times> string) list"

definition debugLog :: "string \<Rightarrow> consoleArg list \<Rightarrow> world \<Rightarrow> world" where
  "debugLog msg args w = w\<lparr>console := console w @ [(msg, args)]\<rparr>"

subsection \<open>The platform: bound functions, event listeners, chrome.debugger\<close>

text \<open>Every call of \<open>bind\<close> makes a new function object.\<close>

definition bind :: "world \<Rightarrow> handler \<Rightarrow> nat \<Rightarrow> boundFn \<times> world" where
  "bind w h a = (\<lparr>fid = nextFn w, target = h, self = a\<rparr>, w\<lparr>nextFn := Suc (nextFn w)\<rparr>)"

text \<open>
  An event holds a function object once; \<open>removeListener\<close> removes the function object
  it is given, compared by identity, and does nothing when that object is not registered.
\<close>

definition addListener :: "boundFn list \<Rightarrow> boundFn \<Rightarrow> boundFn list" where
  "addListener ls f = (if fid f \<in> fid ` set ls then ls else ls @ [f])"

definition removeListener :: "boundFn list \<Rightarrow> boundFn \<Rightarrow> boundFn list" where
  "removeListener ls f = filter (\<lambda>g. fid g \<noteq> fid f) ls"

text \<open>
  \<open>chrome.debugger.attach\<close> fails on a tab that has a debugger attached, and
  \<open>chrome.debugger.detach\<close> fails on a tab that has none: the promise is rejected, which
  at an \<open>await\<close> throws. The other variant of the extension in this repository wraps its
  detach call in \<open>try\<close>/\<open>catch\<close> for this reason ("might already be detached").
  The first component of the result is the error, if any.
\<close>

definition chrome_debugger_attach :: "world \<Rightarrow> nat \<Rightarrow> string \<Rightarrow> jsError option \<times> world" where
  "chrome_debugger_attach w tab version =
     (let w1 = w\<lparr>debuggerCalls := debuggerCalls w @ [Attach tab version]\<rparr>
      in if tab \<in> attached w1
         then (Some (DebuggerError ''Another debugger is already attached to the tab''), w1)
         else (None, w1\<lparr>attached := insert tab (attached w1)\<rparr>))"

definition chrome_debugger_detach :: "world \<Rightarrow> nat \<Rightarrow> jsError option \<times> world" where
  "chrome_debugger_detach w tab =
     (let w1 = w\<lparr>debuggerCalls := debuggerCalls w @ [Detach tab]\<rparr>
      in if tab \<in> attached w1
         then (None, w1\<lparr>attached := attached w1 - {tab}\<rparr>)
         else (Some (DebuggerError ''Debugger is not attached to the tab''), w1))"

text \<open>
  \<open>chrome.debugger.sendCommand\<close> is recorded as a call; its result arrives later (see
  \<open>onCommandResponse\<close>).
\<close>

definition chrome_debugger_sendCommand :: "world \<Rightarrow> nat \<Rightarrow> js \<Rightarrow> js \<Rightarrow> world" where
  "chrome_debugger_sendCommand w tab method params =
     w\<lparr>debuggerCalls := debuggerCalls w @ [SendCommand tab method params]\<rparr>"

subsection \<open>class CDPAdapter\<close>

definition new_CDPAdapter :: "world \<Rightarrow> nat \<Rightarrow> nat \<times> world" where
  "new_CDPAdapter w tabId =
     (let a = nextAdapter w;
          (f, w1) = bind w OnDebuggerEvent a;
          w2 = w1\<lparr>onEvent := addListener (onEvent w1) f\<rparr>;
          (g, w3) = bind w2 OnDebuggerDetach a;
          w4 = w3\<lparr>onDetach := addListener (onDetach w3) g\<rparr>
      in (a, w4\<lparr>heap := (heap w4)(a := \<lparr>debuggee = tabId, onClose = CloseNothing,
                                         dispatch = DispatchNothing\<rparr>),
               nextAdapter := Suc a\<rparr>))"

text \<open>
  Calling \<open>this.dispatch(data)\<close>. The closure that \<open>onTabsUpdated\<close> installs logs the
  data and sends \<open>JSON.stringify(data)\<close> when the socket is open; the socket records the
  value that is serialised.
\<close>

definition call_dispatch :: "world \<Rightarrow> nat \<Rightarrow> js \<Rightarrow> world" where
  "call_dispatch w a data =
     (case dispatch (heap w a) of
        DispatchNothing \<Rightarrow> w
      | DispatchToSocket s \<Rightarrow>
          let w1 = debugLog ''Sending message to browser:'' [LogValue data] w
          in if readyState (sockets w1 s) = OPEN
             then w1\<lparr>sockets := (sockets w1)(s := socket_send data (sockets w1 s))\<rparr>
             else debugLog ''WebSocket is not open. Cannot send data.'' [] w1)"

text \<open>Calling \<open>this.onClose()\<close>.\<close>

definition call_onClose :: "world \<Rightarrow> nat \<Rightarrow> world" where
  "call_onClose w a =
     (case onClose (heap w a) of
        CloseNothing \<Rightarrow> w
      | CloseBridge tabId s \<Rightarrow>
          let w1 = debugLog ''Debugger detached from tab:'' [LogTab tabId] w;
              w2 = w1\<lparr>adapters := (adapters w1)(tabId := None)\<rparr>
          in if readyState (sockets w2 s) = OPEN
             then w2\<lparr>sockets := (sockets w2)(s := socket_close None (sockets w2 s))\<rparr>
             else w2)"

definition versionInfo :: "world \<Rightarrow> js" where
  "versionInfo w =
     JObject [(''protocolVersion'', JString ''1.3''),
              (''userAgent'', JString (userAgent w)),
              (''product'', JString ''Chrome'')]"

definition attachedToTarget :: "js \<Rightarrow> js \<Rightarrow> js" where
  "attachedToTarget targetId browserContextId =
     JObject [(''method'', JString ''Target.attachedToTarget''),
              (''params'', JObject
                 [(''sessionId'', JString ''dummy-session-id''),
                  (''targetInfo'', JObject
                     [(''targetId'', targetId),
                      (''browserContextId'', browserContextId),
                      (''type'', JString ''page''),
                      (''title'', JString ''''),
                      (''url'', JString ''data:text/html,''),
                      (''attached'', JBool True),
                      (''canAccessOpener'', JBool False)]),
                  (''waitingForDebugger'', JBool False)])]"

text \<open>
  The body of the \<open>try\<close> block of \<open>onBrowserMessage\<close> after the frame is decoded. The
  first read of \<open>message.method\<close> is the only one that can throw.
\<close>

definition processMessage :: "world \<Rightarrow> nat \<Rightarrow> js \<Rightarrow> js \<Rightarrow> js \<Rightarrow> jsError + world" where
  "processMessage w a targetId browserContextId message =
     (case getProp message ''method'' of
        Inl e \<Rightarrow> Inl e
      | Inr method \<Rightarrow>
          if method = JString ''Browser.getVersion'' then
            Inr (call_dispatch w a
                   (JObject [(''id'', readProp message ''id''), (''result'', versionInfo w)]))
          else if method = JString ''Target.setAutoAttach'' \<and> \<not> truthy (readProp message ''sessionId'') then
            Inr (call_dispatch
                   (call_dispatch w a (attachedToTarget targetId browserContextId)) a
                   (JObject [(''id'', readProp message ''id''), (''result'', JObject [])]))
          else if method = JString ''Browser.setDownloadBehavior'' then
            Inr (call_dispatch w a
                   (JObject [(''id'', readProp message ''id''), (''result'', JObject [])]))
          else if truthy method then
            Inr (chrome_debugger_sendCommand
                   (debugLog ''Received command from WebSocket:'' [LogValue message] w)
                   (debuggee (heap w a)) method (readProp message ''params''))
          else Inr w)"

definition onBrowserMessage ::
  "(string \<Rightarrow> js option) \<Rightarrow> world \<Rightarrow> nat \<Rightarrow> js \<Rightarrow> js \<Rightarrow> messageData \<Rightarrow> world" where
  "onBrowserMessage JSON_parse w a targetId browserContextId ev =
     (case decode JSON_parse ev of
        Inl e \<Rightarrow> debugLog ''Error processing WebSocket message:'' [LogError e] w
      | Inr message \<Rightarrow>
          (case processMessage w a targetId browserContextId message of
             Inl e \<Rightarrow> debugLog ''Error processing WebSocket message:'' [LogError e] w
           | Inr w' \<Rightarrow> w'))"

text \<open>
  The callback given to \<open>then\<close> in \<open>onBrowserMessage\<close>: it runs when the native debugger
  has answered the forwarded command. \<open>lastError\<close> is the message of
  \<open>chrome.runtime.lastError\<close>, if that is set.
\<close>

definition onCommandResponse :: "world \<Rightarrow> nat \<Rightarrow> js \<Rightarrow> js \<Rightarrow> string option \<Rightarrow> world" where
  "onCommandResponse w a message response lastError =
     call_dispatch w a
       (JObject [(''id'', readProp message ''id''),
                 (''result'', response),
                 (''error'', (case lastError of None \<Rightarrow> JNull | Some m \<Rightarrow> JString m)),
                 (''sessionId'', readProp message ''sessionId'')])"

definition onDebuggerEvent :: "world \<Rightarrow> nat \<Rightarrow> nat \<Rightarrow> js \<Rightarrow> js \<Rightarrow> world" where
  "onDebuggerEvent w a source method params =
     call_dispatch (debugLog ''CDP event:'' [LogValue method, LogValue params] w) a
       (JObject [(''method'', method),
                 (''params'', params),
                 (''sessionId'', JString ''dummy-session-id'')])"

text \<open>
  \<open>_onDebuggerDetach\<close> names its only parameter \<open>reason\<close>; Chrome passes the source
  debuggee first, so that is what the parameter holds. It is only logged.
\<close>

definition onDebuggerDetach :: "world \<Rightarrow> nat \<Rightarrow> nat \<Rightarrow> world" where
  "onDebuggerDetach w a reason =
     call_onClose
       (debugLog ''Debugger detached from tab: with reason:''
          [LogTab (debuggee (heap w a)), LogTab reason] w) a"

text \<open>
  \<open>detach\<close> is asynchronous; the model runs the native call and the rest of the body in
  one step. A rejected native call rejects \<open>detach\<close> itself (first component \<open>Some\<close>),
  and the statements after the \<open>await\<close> do not run.
\<close>

definition detach :: "world \<Rightarrow> nat \<Rightarrow> jsError option \<times> world" where
  "detach w a =
     (case chrome_debugger_detach w (debuggee (heap w a)) of
        (Some e, w1) \<Rightarrow> (Some e, w1)
      | (None, w1) \<Rightarrow>
          let (f, w2) = bind w1 OnDebuggerEvent a;
              w3 = w2\<lparr>onEvent := removeListener (onEvent w2) f\<rparr>;
              (g, w4) = bind w3 OnDebuggerDetach a;
              w5 = w4\<lparr>onDetach := removeListener (onDetach w4) g\<rparr>
          in (None, call_onClose w5 a))"

subsection \<open>class Extension\<close>

text \<open>
  \<open>onTabsUpdated\<close> up to the point where it waits for the approval of the user.
  \<open>status\<close> is \<open>changeInfo.status\<close>, \<open>tabUrl\<close> the parsed \<open>tab.url\<close> (\<open>None\<close> when the tab
  has none).
\<close>

definition onTabsUpdated :: "world \<Rightarrow> nat \<Rightarrow> string option \<Rightarrow> URL option \<Rightarrow> world" where
  "onTabsUpdated w tabId status tabUrl =
     (if status \<noteq> Some ''complete'' then w
      else case tabUrl of
        None \<Rightarrow> w
      | Some url \<Rightarrow>
          if hostname url \<noteq> ''demo.playwright.dev'' \<or> pathname url \<noteq> ''/mcp.html'' then w
          else case searchParams_get url ''connectionURL'' of
            None \<Rightarrow> w
          | Some proxyURL \<Rightarrow>
              if proxyURL = [] then w
              else if adapters w tabId \<noteq> None
              then debugLog ''Already attached to tab:'' [LogTab tabId] w
              else let w1 = debugLog ''Attaching debugger to tab:'' [LogTab tabId] w;
                       w2 = w1\<lparr>tabUpdates := tabUpdates w1 @ [(tabId, ''prompt.html'')]\<rparr>
                   in w2\<lparr>consentListeners := consentListeners w2 @ [(tabId, proxyURL)]\<rparr>)"

text \<open>
  The rest of \<open>onTabsUpdated\<close>, run when the approval has arrived. \<open>targetId\<close> and
  \<open>browserContextId\<close> are what the native debugger answers to \<open>Target.getTargetInfo\<close>.
  A failed attach rejects the function and nothing is built.
\<close>

definition onTabsUpdated_approved ::
  "world \<Rightarrow> nat \<Rightarrow> string \<Rightarrow> js \<Rightarrow> js \<Rightarrow> jsError option \<times> world" where
  "onTabsUpdated_approved w tabId proxyURL targetId browserContextId =
     (case chrome_debugger_attach w tabId ''1.3'' of
        (Some e, w1) \<Rightarrow> (Some e, w1)
      | (None, w1) \<Rightarrow>
          let w2 = debugLog ''Debugger attached to tab:'' [LogTab tabId] w1;
              w3 = chrome_debugger_sendCommand w2 tabId (JString ''Target.getTargetInfo'') (JObject []);
              s = nextSocket w3;
              w4 = w3\<lparr>sockets := (sockets w3)(s := newSocket CONNECTING),
                     socketURL := (socketURL w3)(s \<mapsto> proxyURL),
                     nextSocket := Suc s\<rparr>;
              (a, w5) = new_CDPAdapter w4 tabId;
              w6 = w5\<lparr>heap := (heap w5)(a := (heap w5 a)\<lparr>dispatch := DispatchToSocket s\<rparr>)\<rparr>;
              w7 = w6\<lparr>heap := (heap w6)(a := (heap w6 a)\<lparr>onClose := CloseBridge tabId s\<rparr>)\<rparr>;
              w8 = w7\<lparr>socketListeners := (socketListeners w7)(s \<mapsto> (a, targetId, browserContextId))\<rparr>
          in (None, w8\<lparr>adapters := (adapters w8)(tabId \<mapsto> a)\<rparr>))"

subsection \<open>The events that drive the extension\<close>

text \<open>
  A bound function called with the arguments of a \<open>chrome.debugger\<close> event: the tab of
  the source debuggee, then the method and parameters of an event or the reason of a
  detach.
\<close>

definition call_bound :: "world \<Rightarrow> boundFn \<Rightarrow> nat \<Rightarrow> js \<Rightarrow> js \<Rightarrow> world" where
  "call_bound w f source arg2 arg3 =
     (case target f of
        OnDebuggerEvent \<Rightarrow> onDebuggerEvent w (self f) source arg2 arg3
      | OnDebuggerDetach \<Rightarrow> onDebuggerDetach w (self f) source)"

definition chrome_debugger_onEvent :: "world \<Rightarrow> nat \<Rightarrow> string \<Rightarrow> js \<Rightarrow> world" where
  "chrome_debugger_onEvent w source method params =
     foldl (\<lambda>w' f. call_bound w' f source (JString method) params) w (onEvent w)"

definition chrome_debugger_onDetach :: "world \<Rightarrow> nat \<Rightarrow> string \<Rightarrow> world" where
  "chrome_debugger_onDetach w source reason =
     foldl (\<lambda>w' f. call_bound w' f source (JString reason) JUndefined)
       (w\<lparr>attached := attached w - {source}\<rparr>) (onDetach w)"

definition socket_onopen :: "world \<Rightarrow> nat \<Rightarrow> world" where
  "socket_onopen w s =
     (let w1 = w\<lparr>sockets := (sockets w)(s := (sockets w s)\<lparr>readyState := OPEN\<rparr>)\<rparr>
      in case socketListeners w1 s of
           None \<Rightarrow> w1
         | Some (a, _, _) \<Rightarrow>
             w1\<lparr>tabUpdates := tabUpdates w1 @ [(debuggee (heap w1 a), ''success.html'')]\<rparr>)"

definition socket_onmessage :: "(string \<Rightarrow> js option) \<Rightarrow> world \<Rightarrow> nat \<Rightarrow> messageData \<Rightarrow> world" where
  "socket_onmessage JSON_parse w s ev =
     (case socketListeners w s of
        None \<Rightarrow> w
      | Some (a, targetId, browserContextId) \<Rightarrow>
          onBrowserMessage JSON_parse w a targetId browserContextId ev)"

text \<open>
  The error and close listeners call \<open>adapter.detach()\<close> and drop its promise; the first
  component of the result is the rejection that nobody handles.
\<close>

definition socket_onerror :: "world \<Rightarrow> nat \<Rightarrow> jsError option \<times> world" where
  "socket_onerror w s =
     (case socketListeners w s of
        None \<Rightarrow> (None, w)
      | Some (a, _, _) \<Rightarrow> detach (debugLog ''WebSocket error:'' [] w) a)"

definition socket_onclose :: "world \<Rightarrow> nat \<Rightarrow> jsError option \<times> world" where
  "socket_onclose w s =
     (let w1 = w\<lparr>sockets := (sockets w)(s := (sockets w s)\<lparr>readyState := CLOSED\<rparr>)\<rparr>
      in case socketListeners w1 s of
           None \<Rightarrow> (None, w1)
         | Some (a, _, _) \<Rightarrow> detach w1 a)"

text \<open>
  A message of the consent page: every waiting listener of that tab is removed and its
  \<open>onTabsUpdated\<close> continues.
\<close>

definition runtime_onMessage :: "world \<Rightarrow> nat \<Rightarrow> string \<Rightarrow> js \<Rightarrow> js \<Rightarrow> world" where
  "runtime_onMessage w senderTab action targetId browserContextId =
     foldl (\<lambda>w' (t, u).
              if t = senderTab \<and> action = ''approve''
              then snd (onTabsUpdated_approved
                          (w'\<lparr>consentListeners := remove1 (t, u) (consentListeners w')\<rparr>)
                          t u targetId browserContextId)
              else w')
       w (consentListeners w)"

subsection \<open>Invariant and example states\<close>

text \<open>Function objects that are registered were made by earlier calls of \<open>bind\<close>.\<close>

definition listeners_wf :: "world \<Rightarrow> bool" where
  "listeners_wf w \<longleftrightarrow>
     list_all (\<lambda>f. fid f < nextFn w) (onEvent w) \<and> list_all (\<lambda>f. fid f < nextFn w) (onDetach w)"

definition newWorld :: "string \<Rightarrow> world" where
  "newWorld ua =
     \<lparr>console = [], userAgent = ua, attached = {}, debuggerCalls = [], onEvent = [],
      onDetach = [], nextFn = 0,
      heap = (\<lambda>_. \<lparr>debuggee = 0, onClose = CloseNothing, dispatch = DispatchNothing\<rparr>),
      nextAdapter = 0, adapters = Map.empty, sockets = (\<lambda>_. newSocket CLOSED),
      socketURL = Map.empty, socketListeners = Map.empty, nextSocket = 0,
      tabUpdates = [], consentListeners = []\<rparr>"

text \<open>
  The state in which tab 7 is bridged: it has opened the trigger page, the user has
  approved, the debugger is attached and the socket to the relay is open
  (lemma \<open>bridged_world_reached\<close> below runs the extension into this state).
\<close>

definition triggerURL :: URL where
  "triggerURL =
     \<lparr>hostname = ''demo.playwright.dev'', pathname = ''/mcp.html'',
      searchParams = [(''connectionURL'', ''ws://localhost:9000/extension?token=t'')]\<rparr>"

definition bridged_world :: world where
  "bridged_world =
     \<lparr>console = [(''Attaching debugger to tab:'', [LogTab 7]),
                 (''Debugger attached to tab:'', [LogTab 7])],
      userAgent = ''UA'', attached = {7},
      debuggerCalls = [Attach 7 ''1.3'',
                       SendCommand 7 (JString ''Target.getTargetInfo'') (JObject [])],
      onEvent = [\<lparr>fid = 0, target = OnDebuggerEvent, self = 0\<rparr>],
      onDetach = [\<lparr>fid = 1, target = OnDebuggerDetach, self = 0\<rparr>],
      nextFn = 2,
      heap = (\<lambda>_. \<lparr>debuggee = 0, onClose = CloseNothing, dispatch = DispatchNothing\<rparr>)
               (0 := \<lparr>debuggee = 7, onClose = CloseBridge 7 0, dispatch = DispatchToSocket 0\<rparr>),
      nextAdapter = 1, adapters = [7 \<mapsto> 0],
      sockets = (\<lambda>_. newSocket CLOSED)(0 := \<lparr>readyState = OPEN, sent = [], closing = None\<rparr>),
      socketURL = [0 \<mapsto> ''ws://localhost:9000/extension?token=t''],
      socketListeners = [0 \<mapsto> (0, JString ''TARGET'', JString ''CONTEXT'')],
      nextSocket = 1,
      tabUpdates = [(7, ''prompt.html''), (7, ''success.html'')],
      consentListeners = []\<rparr>"

text \<open>A decoder for the frames of the examples; every other text fails to decode.\<close>

definition example_parse :: "string \<Rightarrow> js option" where
  "example_parse t =
     (if t = ''{id:7,method:Browser.getVersion}''
      then Some (JObject [(''id'', JNumber 7), (''method'', JString ''Browser.getVersion'')])
      else if t = ''{id:2,method:Target.setAutoAttach,params:{}}''
      then Some (JObject [(''id'', JNumber 2), (''method'', JString ''Target.setAutoAttach''),
                          (''params'', JObject [])])
      else None)"

section \<open>Properties of the relay\<close>



lemma frames_dropped:
  "\<not> isOpen r (browserSocket r) \<Longrightarrow> foldl (\<lambda>r' d. extension_onmessage r' ws d) r ds = r"
  by (induction ds) (auto simp: isOpen_def extension_onmessage_def split: option.splits)

lemma frames_forwarded:
  "browserSocket r = Some b \<Longrightarrow> readyState (wsStore r b) = OPEN \<Longrightarrow>
   foldl (\<lambda>r' d. extension_onmessage r' ws d) r ds =
     r\<lparr>wsStore := (wsStore r)(b := (wsStore r b)\<lparr>sent := sent (wsStore r b) @ ds\<rparr>)\<rparr>"
proof (induction ds arbitrary: r)
  case Nil
  then show ?case by simp
next
  case (Cons d ds)
  let ?r1 = "extension_onmessage r ws d"
  have r1: "?r1 = r\<lparr>wsStore := (wsStore r)(b := (wsStore r b)\<lparr>sent := sent (wsStore r b) @ [d]\<rparr>)\<rparr>"
    using Cons.prems by (simp add: extension_onmessage_def ws_send_def socket_send_def)
  have "browserSocket ?r1 = Some b" and "readyState (wsStore ?r1 b) = OPEN"
    using Cons.prems by (simp_all add: r1)
  then have "foldl (\<lambda>r' d. extension_onmessage r' ws d) ?r1 ds =
      ?r1\<lparr>wsStore := (wsStore ?r1)(b := (wsStore ?r1 b)\<lparr>sent := sent (wsStore ?r1 b) @ ds\<rparr>)\<rparr>"
    by (rule Cons.IH)
  also have "\<dots> = r\<lparr>wsStore := (wsStore r)(b := (wsStore r b)\<lparr>sent := sent (wsStore r b) @ d # ds\<rparr>)\<rparr>"
    unfolding r1 by simp
  finally show ?case by (simp only: foldl.simps)
qed

lemma relay_inv_new: "relay_inv (newRelay et bt)"
  by (simp add: relay_inv_def newRelay_def newSocket_def)

lemma relay_inv_step: "relay_inv r \<Longrightarrow> relay_inv (relay_step r ev)"
proof (cases ev)
  case (Connection url)
  assume "relay_inv r"
  then show ?thesis unfolding Connection
    by (auto simp: relay_inv_def accept_def onConnection_def Let_def ws_close_def socket_close_def
        debugLog_relay_def handleExtensionConnection_def handleBrowserConnection_def closePrevious_def
        resolveWaiter_def newSocket_def split: option.splits if_splits)
next
  case (Message ws d)
  assume "relay_inv r"
  then show ?thesis unfolding Message
    by (auto simp: relay_inv_def emit_message_def extension_onmessage_def browser_onmessage_def
        ws_send_def ws_close_def socket_send_def socket_close_def split: option.splits role.splits if_splits)
next
  case (Closed ws)
  assume "relay_inv r"
  then show ?thesis unfolding Closed
    by (auto simp: relay_inv_def emit_close_def extension_onclose_def browser_onclose_def Let_def
        debugLog_relay_def split: option.splits role.splits if_splits)
next
  case (Failed ws)
  assume "relay_inv r"
  then show ?thesis unfolding Failed
    by (auto simp: relay_inv_def emit_error_def extension_onerror_def browser_onerror_def
        debugLog_relay_def split: option.splits role.splits)
next
  case WaitForConnection
  assume "relay_inv r"
  then show ?thesis unfolding WaitForConnection
    by (simp add: relay_inv_def waitForConnection_def)
next
  case Shutdown
  assume "relay_inv r"
  then show ?thesis unfolding Shutdown
    by (auto simp: relay_inv_def close_relay_def Let_def ws_close_def socket_close_def
        split: option.splits if_splits)
qed

lemma relay_inv_run: "relay_inv r \<Longrightarrow> relay_inv (run r evs)"
  unfolding run_def by (induction evs arbitrary: r) (simp_all add: relay_inv_step)

lemma relay_inv_reachable: "relay_inv (run (newRelay et bt) evs)"
  by (rule relay_inv_run) (rule relay_inv_new)

lemma extension_onmessage_frame:
  "wsRole (extension_onmessage r ws d) = wsRole r"
  "readyState (wsStore (extension_onmessage r ws d) s) = readyState (wsStore r s)"
  by (simp_all add: extension_onmessage_def ws_send_def socket_send_def split: option.splits)

lemma emit_frames_extension:
  "wsRole r ws = Some ExtensionRole \<Longrightarrow> readyState (wsStore r ws) = OPEN \<Longrightarrow>
   foldl (\<lambda>r' d. emit_message r' ws d) r ds = foldl (\<lambda>r' d. extension_onmessage r' ws d) r ds"
proof (induction ds arbitrary: r)
  case Nil
  show ?case by simp
next
  case (Cons d ds)
  have step: "emit_message r ws d = extension_onmessage r ws d"
    using Cons.prems by (simp add: emit_message_def)
  have "foldl (\<lambda>r' d. emit_message r' ws d) (extension_onmessage r ws d) ds =
        foldl (\<lambda>r' d. extension_onmessage r' ws d) (extension_onmessage r ws d) ds"
    by (rule Cons.IH) (simp_all add: extension_onmessage_frame Cons.prems)
  then show ?case by (simp only: foldl.simps step)
qed

lemmas relay_defs =
  run_def newRelay_def accept_def onConnection_def handleExtensionConnection_def
  handleBrowserConnection_def closePrevious_def relayURL_def searchParams_get_def resolveWaiter_def debugLog_relay_def
  ws_close_def ws_send_def socket_close_def socket_send_def newSocket_def
  kExtensionPath_def kBrowserPath_def emit_message_def emit_close_def
  extension_onmessage_def browser_onmessage_def extension_onclose_def browser_onclose_def
  isOpen_def Let_def

text \<open>
  Claim C1. Frames that arrive on an open socket carrying the extension listeners are
  handed to the client socket unchanged and in their order of arrival when the client
  socket is open: its list of sent frames grows by exactly these frames and nothing else
  in the relay changes. When no client socket is open the relay is left exactly as it was:
  no frame sent, no socket closed, no field written, nothing logged.
\<close>

theorem extension_frames_forwarded:
  assumes "wsRole r ws = Some ExtensionRole" and "readyState (wsStore r ws) = OPEN"
  shows "(\<forall>b. browserSocket r = Some b \<and> readyState (wsStore r b) = OPEN \<longrightarrow>
            foldl (\<lambda>r' d. emit_message r' ws d) r ds =
              r\<lparr>wsStore := (wsStore r)(b := (wsStore r b)\<lparr>sent := sent (wsStore r b) @ ds\<rparr>)\<rparr>) \<and>
         (\<not> isOpen r (browserSocket r) \<longrightarrow> foldl (\<lambda>r' d. emit_message r' ws d) r ds = r)"
  using assms by (simp add: emit_frames_extension frames_forwarded frames_dropped)

theorem extension_frames_forwarded_witness:
  "wsRole paired_relay 1 = Some ExtensionRole \<and> readyState (wsStore paired_relay 1) = OPEN \<and>
   browserSocket paired_relay = Some 0 \<and> readyState (wsStore paired_relay 0) = OPEN \<and>
   sent (wsStore (foldl (\<lambda>r' d. emit_message r' 1 d) paired_relay [''first'', ''second'']) 0) =
     [''first'', ''second'']"
proof -
  have h: "wsRole paired_relay 1 = Some ExtensionRole" "readyState (wsStore paired_relay 1) = OPEN"
    "browserSocket paired_relay = Some 0" "readyState (wsStore paired_relay 0) = OPEN"
    "sent (wsStore paired_relay 0) = []"
    by (simp_all add: paired_relay_def relay_defs)
  from extension_frames_forwarded[OF h(1,2), of "[''first'', ''second'']"] h show ?thesis
    by simp
qed

text \<open>
  Claim C2. A connection whose path is neither of the two paths, or whose token differs
  from the token of its path (a missing token included), is closed with code 4001 and a
  non-empty reason. The stored extension and client sockets, every other socket, the
  registered listeners and the waiter are as before.
\<close>

theorem invalid_connection_rejected:
  assumes "(pathname url \<noteq> kExtensionPath \<and> pathname url \<noteq> kBrowserPath) \<or>
           (pathname url = kExtensionPath \<and> searchParams_get url ''token'' \<noteq> Some (extensionToken r)) \<or>
           (pathname url = kBrowserPath \<and> searchParams_get url ''token'' \<noteq> Some (browserToken r))"
  shows "readyState (wsStore (accept r url) (nextWs r)) = CLOSING \<and>
         (\<exists>reason. reason \<noteq> [] \<and>
            closing (wsStore (accept r url) (nextWs r)) = Some (Some (4001, reason))) \<and>
         sent (wsStore (accept r url) (nextWs r)) = [] \<and>
         extensionSocket (accept r url) = extensionSocket r \<and>
         browserSocket (accept r url) = browserSocket r \<and>
         (\<forall>s. s \<noteq> nextWs r \<longrightarrow> wsStore (accept r url) s = wsStore r s) \<and>
         wsRole (accept r url) = wsRole r \<and>
         waiter (accept r url) = waiter r"
  using assms
  by (auto simp: accept_def Let_def onConnection_def ws_close_def socket_close_def
      debugLog_relay_def newSocket_def kExtensionPath_def kBrowserPath_def)

theorem invalid_connection_rejected_witness:
  "pathname (relayURL ''/extension'' ''tokenB'') = kExtensionPath \<and>
   searchParams_get (relayURL ''/extension'' ''tokenB'') ''token'' \<noteq> Some (extensionToken paired_relay) \<and>
   readyState (wsStore (accept paired_relay (relayURL ''/extension'' ''tokenB'')) 2) = CLOSING \<and>
   extensionSocket (accept paired_relay (relayURL ''/extension'' ''tokenB'')) = Some 1 \<and>
   browserSocket (accept paired_relay (relayURL ''/extension'' ''tokenB'')) = Some 0"
proof -
  have h: "nextWs paired_relay = 2" "extensionSocket paired_relay = Some 1"
    "browserSocket paired_relay = Some 0" "extensionToken paired_relay = ''tokenE''"
    by (simp_all add: paired_relay_def relay_defs)
  from invalid_connection_rejected[of "(relayURL ''/extension'' ''tokenB'')" paired_relay]
  show ?thesis by (simp add: h kExtensionPath_def kBrowserPath_def relayURL_def searchParams_get_def)
qed

text \<open>
  Claim C3. When an authenticated extension connection arrives while the stored extension
  socket is open, the stored socket is closed with code 1000 and the reason
  "New extension connection established" while it is still the stored one; afterwards the
  new socket is the stored extension socket and it is the only open socket that carries
  the extension listeners.
\<close>

theorem extension_reconnect_supersedes:
  assumes "relay_inv r" and "pathname url = kExtensionPath"
    and "searchParams_get url ''token'' = Some (extensionToken r)"
    and "extensionSocket r = Some old" and "readyState (wsStore r old) = OPEN"
  shows "extensionSocket (closePrevious r) = Some old \<and>
         readyState (wsStore (closePrevious r) old) = CLOSING \<and>
         wsStore (accept r url) old =
           (wsStore r old)\<lparr>readyState := CLOSING,
              closing := Some (Some (1000, ''New extension connection established''))\<rparr> \<and>
         extensionSocket (accept r url) = Some (nextWs r) \<and>
         nextWs r \<noteq> old \<and>
         {s. wsRole (accept r url) s = Some ExtensionRole \<and>
             readyState (wsStore (accept r url) s) = OPEN} = {nextWs r}"
proof -
  have old: "old < nextWs r" using assms(1,4) by (simp add: relay_inv_def)
  have only: "\<And>s. wsRole r s = Some ExtensionRole \<Longrightarrow> readyState (wsStore r s) = OPEN \<Longrightarrow> s = old"
    using assms(1,4) by (simp add: relay_inv_def)
  have fresh: "wsRole r (nextWs r) = None" using assms(1) by (simp add: relay_inv_def)
  have prev: "extensionSocket (closePrevious r) = Some old \<and>
         readyState (wsStore (closePrevious r) old) = CLOSING"
    using assms(4,5) by (simp add: closePrevious_def ws_close_def socket_close_def debugLog_relay_def)
  have rw: "\<And>x. wsStore (resolveWaiter x) = wsStore x" "\<And>x. wsRole (resolveWaiter x) = wsRole x"
    "\<And>x. extensionSocket (resolveWaiter x) = extensionSocket x"
    by (simp_all add: resolveWaiter_def split: option.splits)
  have store: "wsStore (accept r url) = (wsStore r)(nextWs r := newSocket OPEN,
            old := (wsStore r old)\<lparr>readyState := CLOSING,
              closing := Some (Some (1000, ''New extension connection established''))\<rparr>)"
    using assms(2-5) old
    by (simp add: accept_def Let_def onConnection_def handleExtensionConnection_def rw
        closePrevious_def ws_close_def socket_close_def debugLog_relay_def)
  have roles: "wsRole (accept r url) = (wsRole r)(nextWs r \<mapsto> ExtensionRole)"
    using assms(2-5) old
    by (simp add: accept_def Let_def onConnection_def handleExtensionConnection_def rw
        closePrevious_def ws_close_def socket_close_def debugLog_relay_def)
  have stored: "extensionSocket (accept r url) = Some (nextWs r)"
    using assms(2,3)
    by (simp add: accept_def Let_def onConnection_def handleExtensionConnection_def rw)
  have active: "{s. wsRole (accept r url) s = Some ExtensionRole \<and>
             readyState (wsStore (accept r url) s) = OPEN} = {nextWs r}"
    using old only by (auto simp: store roles newSocket_def)
  show ?thesis using prev active old stored by (simp add: store)
qed

theorem extension_reconnect_supersedes_witness:
  "relay_inv paired_relay \<and> extensionSocket paired_relay = Some 1 \<and>
   readyState (wsStore paired_relay 1) = OPEN \<and>
   extensionSocket (accept paired_relay (relayURL ''/extension'' ''tokenE'')) = Some 2 \<and>
   {s. wsRole (accept paired_relay (relayURL ''/extension'' ''tokenE'')) s = Some ExtensionRole \<and>
       readyState (wsStore (accept paired_relay (relayURL ''/extension'' ''tokenE'')) s) = OPEN} = {2}"
proof -
  have inv: "relay_inv paired_relay"
    unfolding paired_relay_def by (rule relay_inv_run) (rule relay_inv_new)
  have h: "nextWs paired_relay = 2" "extensionSocket paired_relay = Some 1"
    "readyState (wsStore paired_relay 1) = OPEN" "extensionToken paired_relay = ''tokenE''"
    by (simp_all add: paired_relay_def relay_defs)
  have u: "pathname (relayURL ''/extension'' ''tokenE'') = kExtensionPath"
    "searchParams_get (relayURL ''/extension'' ''tokenE'') ''token'' = Some (extensionToken paired_relay)"
    by (simp_all add: h kExtensionPath_def relayURL_def searchParams_get_def)
  from extension_reconnect_supersedes[OF inv u h(2,3)]
  show ?thesis using inv h by simp
qed

text \<open>
  Claim C4. A frame that arrives on an open client socket is appended to the frames sent
  to the extension socket when that one is open. Otherwise the client socket is closed
  with code 4001 and the reason "No extension client connected", and no socket is sent
  anything.
\<close>

theorem client_frame_needs_extension:
  assumes "wsRole r ws = Some BrowserRole" and "readyState (wsStore r ws) = OPEN"
  shows "(\<forall>e. extensionSocket r = Some e \<and> readyState (wsStore r e) = OPEN \<longrightarrow>
            emit_message r ws d =
              r\<lparr>wsStore := (wsStore r)(e := (wsStore r e)\<lparr>sent := sent (wsStore r e) @ [d]\<rparr>)\<rparr>) \<and>
         (\<not> isOpen r (extensionSocket r) \<longrightarrow>
            emit_message r ws d =
              r\<lparr>wsStore := (wsStore r)(ws := (wsStore r ws)\<lparr>readyState := CLOSING,
                   closing := Some (Some (4001, ''No extension client connected''))\<rparr>)\<rparr> \<and>
            (\<forall>s. sent (wsStore (emit_message r ws d) s) = sent (wsStore r s)))"
  using assms
  by (auto simp: emit_message_def browser_onmessage_def isOpen_def ws_send_def ws_close_def
      socket_send_def socket_close_def split: option.splits)

theorem client_frame_needs_extension_witness:
  "wsRole client_only_relay 0 = Some BrowserRole \<and> readyState (wsStore client_only_relay 0) = OPEN \<and>
   \<not> isOpen client_only_relay (extensionSocket client_only_relay) \<and>
   readyState (wsStore (emit_message client_only_relay 0 ''frame'') 0) = CLOSING \<and>
   closing (wsStore (emit_message client_only_relay 0 ''frame'') 0) =
     Some (Some (4001, ''No extension client connected''))"
proof -
  have h: "wsRole client_only_relay 0 = Some BrowserRole"
    "readyState (wsStore client_only_relay 0) = OPEN"
    "\<not> isOpen client_only_relay (extensionSocket client_only_relay)"
    by (simp_all add: client_only_relay_def relay_defs)
  from client_frame_needs_extension[OF h(1,2), of "''frame''"] h show ?thesis
    by simp
qed


section \<open>Properties of the extension\<close>

lemma bridged_world_reached:
  "socket_onopen
     (runtime_onMessage (onTabsUpdated (newWorld ''UA'') 7 (Some ''complete'') (Some triggerURL))
        7 ''approve'' (JString ''TARGET'') (JString ''CONTEXT''))
     0 = bridged_world"
proof -
  have pending: "onTabsUpdated (newWorld ''UA'') 7 (Some ''complete'') (Some triggerURL) =
      (newWorld ''UA'')\<lparr>console := [(''Attaching debugger to tab:'', [LogTab 7])],
        tabUpdates := [(7, ''prompt.html'')],
        consentListeners := [(7, ''ws://localhost:9000/extension?token=t'')]\<rparr>"
    by (simp add: onTabsUpdated_def newWorld_def debugLog_def searchParams_get_def triggerURL_def)
  have approved: "runtime_onMessage
      ((newWorld ''UA'')\<lparr>console := [(''Attaching debugger to tab:'', [LogTab 7])],
        tabUpdates := [(7, ''prompt.html'')],
        consentListeners := [(7, ''ws://localhost:9000/extension?token=t'')]\<rparr>)
      7 ''approve'' (JString ''TARGET'') (JString ''CONTEXT'') =
      bridged_world\<lparr>sockets := (\<lambda>_. newSocket CLOSED)(0 := newSocket CONNECTING),
        tabUpdates := [(7, ''prompt.html'')]\<rparr>"
    by (simp add: runtime_onMessage_def onTabsUpdated_approved_def chrome_debugger_attach_def
        chrome_debugger_sendCommand_def new_CDPAdapter_def bind_def addListener_def debugLog_def
        newWorld_def bridged_world_def Let_def)
  show ?thesis
    unfolding pending approved
    by (simp add: socket_onopen_def bridged_world_def newSocket_def)
qed

lemma bridged_world_facts:
  "heap bridged_world 0 = \<lparr>debuggee = 7, onClose = CloseBridge 7 0, dispatch = DispatchToSocket 0\<rparr>"
  "sockets bridged_world 0 = \<lparr>readyState = OPEN, sent = [], closing = None\<rparr>"
  "socketListeners bridged_world 0 = Some (0, JString ''TARGET'', JString ''CONTEXT'')"
  "onEvent bridged_world = [\<lparr>fid = 0, target = OnDebuggerEvent, self = 0\<rparr>]"
  "onDetach bridged_world = [\<lparr>fid = 1, target = OnDebuggerDetach, self = 0\<rparr>]"
  "nextFn bridged_world = 2"
  "attached bridged_world = {7}"
  "adapters bridged_world 7 = Some 0"
  "debuggerCalls bridged_world =
     [Attach 7 ''1.3'', SendCommand 7 (JString ''Target.getTargetInfo'') (JObject [])]"
  "userAgent bridged_world = ''UA''"
  by (simp_all add: bridged_world_def)

lemma call_dispatch_frame:
  "debuggerCalls (call_dispatch w a d) = debuggerCalls w"
  "heap (call_dispatch w a d) = heap w"
  "adapters (call_dispatch w a d) = adapters w"
  "attached (call_dispatch w a d) = attached w"
  "onEvent (call_dispatch w a d) = onEvent w"
  "onDetach (call_dispatch w a d) = onDetach w"
  "readyState (sockets (call_dispatch w a d) s) = readyState (sockets w s)"
  by (simp_all add: call_dispatch_def debugLog_def socket_send_def Let_def split: dispatchFn.splits)

lemma call_dispatch_open:
  "dispatch (heap w a) = DispatchToSocket s \<Longrightarrow> readyState (sockets w s) = OPEN \<Longrightarrow>
   sent (sockets (call_dispatch w a d) s) = sent (sockets w s) @ [d]"
  by (simp add: call_dispatch_def debugLog_def socket_send_def Let_def)

text \<open>
  Claim C5. A frame that decodes to an object whose method is Target.setAutoAttach and
  that has no sessionId is answered by two dispatches, in this order: the
  Target.attachedToTarget event with the session id 'dummy-session-id' and the target and
  context identity the listener was given, then the reply with the id of the request and
  an empty result. No call to the native debugger is made. With an open socket exactly
  these two objects are appended to the frames sent.
\<close>

theorem setAutoAttach_answered_locally:
  assumes "JSON_parse t = Some (JObject fs)"
    and "map_of fs ''method'' = Some (JString ''Target.setAutoAttach'')"
    and "map_of fs ''sessionId'' = None"
  shows "onBrowserMessage JSON_parse w a targetId browserContextId (Blob t) =
           call_dispatch (call_dispatch w a (attachedToTarget targetId browserContextId)) a
             (JObject [(''id'', readProp (JObject fs) ''id''), (''result'', JObject [])]) \<and>
         debuggerCalls (onBrowserMessage JSON_parse w a targetId browserContextId (Blob t)) =
           debuggerCalls w \<and>
         (\<forall>s. dispatch (heap w a) = DispatchToSocket s \<and> readyState (sockets w s) = OPEN \<longrightarrow>
            sent (sockets (onBrowserMessage JSON_parse w a targetId browserContextId (Blob t)) s) =
              sent (sockets w s) @
                [attachedToTarget targetId browserContextId,
                 JObject [(''id'', readProp (JObject fs) ''id''), (''result'', JObject [])]]) \<and>
         readProp (attachedToTarget targetId browserContextId) ''method'' =
           JString ''Target.attachedToTarget'' \<and>
         readProp (readProp (attachedToTarget targetId browserContextId) ''params'') ''sessionId'' =
           JString ''dummy-session-id'' \<and>
         readProp (readProp (readProp (attachedToTarget targetId browserContextId) ''params'')
           ''targetInfo'') ''targetId'' = targetId \<and>
         readProp (readProp (readProp (attachedToTarget targetId browserContextId) ''params'')
           ''targetInfo'') ''browserContextId'' = browserContextId"
proof -
  have eq: "onBrowserMessage JSON_parse w a targetId browserContextId (Blob t) =
           call_dispatch (call_dispatch w a (attachedToTarget targetId browserContextId)) a
             (JObject [(''id'', readProp (JObject fs) ''id''), (''result'', JObject [])])"
    using assms by (simp add: onBrowserMessage_def decode_def processMessage_def)
  have calls: "debuggerCalls (onBrowserMessage JSON_parse w a targetId browserContextId (Blob t)) =
           debuggerCalls w"
    by (simp add: eq call_dispatch_frame)
  have out: "\<And>s. dispatch (heap w a) = DispatchToSocket s \<Longrightarrow> readyState (sockets w s) = OPEN \<Longrightarrow>
            sent (sockets (onBrowserMessage JSON_parse w a targetId browserContextId (Blob t)) s) =
              sent (sockets w s) @
                [attachedToTarget targetId browserContextId,
                 JObject [(''id'', readProp (JObject fs) ''id''), (''result'', JObject [])]]"
    by (simp add: eq call_dispatch_open call_dispatch_frame)
  have shape: "readProp (attachedToTarget targetId browserContextId) ''method'' =
           JString ''Target.attachedToTarget''"
    "readProp (readProp (attachedToTarget targetId browserContextId) ''params'') ''sessionId'' =
           JString ''dummy-session-id''"
    "readProp (readProp (readProp (attachedToTarget targetId browserContextId) ''params'')
           ''targetInfo'') ''targetId'' = targetId"
    "readProp (readProp (readProp (attachedToTarget targetId browserContextId) ''params'')
           ''targetInfo'') ''browserContextId'' = browserContextId"
    by (simp_all add: attachedToTarget_def)
  show ?thesis using eq calls out shape by blast
qed


theorem setAutoAttach_answered_locally_witness:
  "example_parse ''{id:2,method:Target.setAutoAttach,params:{}}'' =
     Some (JObject [(''id'', JNumber 2), (''method'', JString ''Target.setAutoAttach''),
                    (''params'', JObject [])]) \<and>
   sent (sockets (socket_onmessage example_parse bridged_world 0
                    (Blob ''{id:2,method:Target.setAutoAttach,params:{}}'')) 0) =
     [attachedToTarget (JString ''TARGET'') (JString ''CONTEXT''),
      JObject [(''id'', JNumber 2), (''result'', JObject [])]] \<and>
   debuggerCalls (socket_onmessage example_parse bridged_world 0
                    (Blob ''{id:2,method:Target.setAutoAttach,params:{}}'')) =
     debuggerCalls bridged_world"
proof -
  let ?fs = "[(''id'', JNumber 2), (''method'', JString ''Target.setAutoAttach''),
              (''params'', JObject [])]"
  have h: "example_parse ''{id:2,method:Target.setAutoAttach,params:{}}'' = Some (JObject ?fs)"
    "map_of ?fs ''method'' = Some (JString ''Target.setAutoAttach'')"
    "map_of ?fs ''sessionId'' = None"
    by (simp_all add: example_parse_def)
  note T = setAutoAttach_answered_locally[where JSON_parse = example_parse and w = bridged_world
      and a = 0 and targetId = "JString ''TARGET''" and browserContextId = "JString ''CONTEXT''",
      OF h]
  have calls: "debuggerCalls (onBrowserMessage example_parse bridged_world 0 (JString ''TARGET'')
      (JString ''CONTEXT'') (Blob ''{id:2,method:Target.setAutoAttach,params:{}}'')) =
      debuggerCalls bridged_world"
    by (rule T[THEN conjunct2, THEN conjunct1])
  have out: "sent (sockets (onBrowserMessage example_parse bridged_world 0 (JString ''TARGET'')
      (JString ''CONTEXT'') (Blob ''{id:2,method:Target.setAutoAttach,params:{}}'')) 0) =
      [attachedToTarget (JString ''TARGET'') (JString ''CONTEXT''),
       JObject [(''id'', JNumber 2), (''result'', JObject [])]]"
    using T[THEN conjunct2, THEN conjunct2, THEN conjunct1, rule_format, of 0]
    by (simp add: bridged_world_facts)
  show ?thesis using h(1) calls out
    by (simp add: socket_onmessage_def bridged_world_facts)
qed

text \<open>
  Claim C6. A frame that decodes to an object whose method is Browser.getVersion is
  answered by one dispatch of a reply with the id of the request and the result
  protocolVersion '1.3', the user agent of the browser and the product 'Chrome'. No call
  to the native debugger is made.
\<close>

theorem getVersion_answered_locally:
  assumes "JSON_parse t = Some (JObject fs)"
    and "map_of fs ''method'' = Some (JString ''Browser.getVersion'')"
  shows "onBrowserMessage JSON_parse w a targetId browserContextId (Blob t) =
           call_dispatch w a
             (JObject [(''id'', readProp (JObject fs) ''id''), (''result'', versionInfo w)]) \<and>
         debuggerCalls (onBrowserMessage JSON_parse w a targetId browserContextId (Blob t)) =
           debuggerCalls w \<and>
         (\<forall>s. dispatch (heap w a) = DispatchToSocket s \<and> readyState (sockets w s) = OPEN \<longrightarrow>
            sent (sockets (onBrowserMessage JSON_parse w a targetId browserContextId (Blob t)) s) =
              sent (sockets w s) @
                [JObject [(''id'', readProp (JObject fs) ''id''), (''result'', versionInfo w)]]) \<and>
         readProp (versionInfo w) ''protocolVersion'' = JString ''1.3'' \<and>
         readProp (versionInfo w) ''userAgent'' = JString (userAgent w) \<and>
         readProp (versionInfo w) ''product'' = JString ''Chrome''"
proof -
  have eq: "onBrowserMessage JSON_parse w a targetId browserContextId (Blob t) =
           call_dispatch w a
             (JObject [(''id'', readProp (JObject fs) ''id''), (''result'', versionInfo w)])"
    using assms by (simp add: onBrowserMessage_def decode_def processMessage_def)
  have calls: "debuggerCalls (onBrowserMessage JSON_parse w a targetId browserContextId (Blob t)) =
           debuggerCalls w"
    by (simp add: eq call_dispatch_frame)
  have out: "\<And>s. dispatch (heap w a) = DispatchToSocket s \<Longrightarrow> readyState (sockets w s) = OPEN \<Longrightarrow>
            sent (sockets (onBrowserMessage JSON_parse w a targetId browserContextId (Blob t)) s) =
              sent (sockets w s) @
                [JObject [(''id'', readProp (JObject fs) ''id''), (''result'', versionInfo w)]]"
    by (simp add: eq call_dispatch_open)
  have shape: "readProp (versionInfo w) ''protocolVersion'' = JString ''1.3''"
    "readProp (versionInfo w) ''userAgent'' = JString (userAgent w)"
    "readProp (versionInfo w) ''product'' = JString ''Chrome''"
    by (simp_all add: versionInfo_def)
  show ?thesis using eq calls out shape by blast
qed

theorem getVersion_answered_locally_witness:
  "example_parse ''{id:7,method:Browser.getVersion}'' =
     Some (JObject [(''id'', JNumber 7), (''method'', JString ''Browser.getVersion'')]) \<and>
   sent (sockets (socket_onmessage example_parse bridged_world 0
                    (Blob ''{id:7,method:Browser.getVersion}'')) 0) =
     [JObject [(''id'', JNumber 7),
               (''result'', JObject [(''protocolVersion'', JString ''1.3''),
                                     (''userAgent'', JString ''UA''),
                                     (''product'', JString ''Chrome'')])]] \<and>
   debuggerCalls (socket_onmessage example_parse bridged_world 0
                    (Blob ''{id:7,method:Browser.getVersion}'')) =
     debuggerCalls bridged_world"
proof -
  let ?fs = "[(''id'', JNumber 7), (''method'', JString ''Browser.getVersion'')]"
  have h: "example_parse ''{id:7,method:Browser.getVersion}'' = Some (JObject ?fs)"
    "map_of ?fs ''method'' = Some (JString ''Browser.getVersion'')"
    by (simp_all add: example_parse_def)
  note T = getVersion_answered_locally[where JSON_parse = example_parse and w = bridged_world
      and a = 0 and targetId = "JString ''TARGET''" and browserContextId = "JString ''CONTEXT''",
      OF h]
  have calls: "debuggerCalls (onBrowserMessage example_parse bridged_world 0 (JString ''TARGET'')
      (JString ''CONTEXT'') (Blob ''{id:7,method:Browser.getVersion}'')) =
      debuggerCalls bridged_world"
    by (rule T[THEN conjunct2, THEN conjunct1])
  have out: "sent (sockets (onBrowserMessage example_parse bridged_world 0 (JString ''TARGET'')
      (JString ''CONTEXT'') (Blob ''{id:7,method:Browser.getVersion}'')) 0) =
      [JObject [(''id'', JNumber 7),
               (''result'', JObject [(''protocolVersion'', JString ''1.3''),
                                     (''userAgent'', JString ''UA''),
                                     (''product'', JString ''Chrome'')])]]"
    using T[THEN conjunct2, THEN conjunct2, THEN conjunct1, rule_format, of 0]
    by (simp add: bridged_world_facts versionInfo_def)
  show ?thesis using h(1) calls out
    by (simp add: socket_onmessage_def bridged_world_facts)
qed

text \<open>
  Claim C7. A frame that does not decode (its text is not JSON, or the payload is not a
  blob) adds one line with the error to the console and changes nothing else: every
  socket is as it was, nothing is dispatched or sent, no native call is made, and the
  adapters and listeners are untouched. The pump returns normally.
\<close>

theorem malformed_frame_dropped:
  assumes "decode JSON_parse ev = Inl e"
  shows "onBrowserMessage JSON_parse w a targetId browserContextId ev =
           w\<lparr>console := console w @ [(''Error processing WebSocket message:'', [LogError e])]\<rparr> \<and>
         sockets (onBrowserMessage JSON_parse w a targetId browserContextId ev) = sockets w \<and>
         debuggerCalls (onBrowserMessage JSON_parse w a targetId browserContextId ev) =
           debuggerCalls w \<and>
         heap (onBrowserMessage JSON_parse w a targetId browserContextId ev) = heap w \<and>
         adapters (onBrowserMessage JSON_parse w a targetId browserContextId ev) = adapters w \<and>
         attached (onBrowserMessage JSON_parse w a targetId browserContextId ev) = attached w"
  using assms by (simp add: onBrowserMessage_def debugLog_def)

theorem malformed_frame_dropped_witness:
  "example_parse ''{id:7,'' = None \<and>
   decode example_parse (Blob ''{id:7,'') = Inl SyntaxError \<and>
   socket_onmessage example_parse bridged_world 0 (Blob ''{id:7,'') =
     bridged_world\<lparr>console := console bridged_world @
        [(''Error processing WebSocket message:'', [LogError SyntaxError])]\<rparr> \<and>
   readyState (sockets (socket_onmessage example_parse bridged_world 0 (Blob ''{id:7,'')) 0) = OPEN \<and>
   sent (sockets (socket_onmessage example_parse bridged_world 0 (Blob ''{id:7,'')) 0) = []"
proof -
  have h: "example_parse ''{id:7,'' = None" "decode example_parse (Blob ''{id:7,'') = Inl SyntaxError"
    by (simp_all add: example_parse_def decode_def)
  note T = malformed_frame_dropped[where JSON_parse = example_parse and w = bridged_world
      and a = 0 and targetId = "JString ''TARGET''" and browserContextId = "JString ''CONTEXT''",
      OF h(2)]
  have eq: "socket_onmessage example_parse bridged_world 0 (Blob ''{id:7,'') =
      onBrowserMessage example_parse bridged_world 0 (JString ''TARGET'') (JString ''CONTEXT'')
        (Blob ''{id:7,'')"
    by (simp add: socket_onmessage_def bridged_world_facts)
  have st: "sockets (socket_onmessage example_parse bridged_world 0 (Blob ''{id:7,'')) =
      sockets bridged_world"
    unfolding eq by (rule T[THEN conjunct2, THEN conjunct1])
  show ?thesis using h T[THEN conjunct1]
    by (simp add: eq st[unfolded eq] bridged_world_facts)
qed


lemma call_onClose_listeners:
  "onEvent (call_onClose w a) = onEvent w"
  "onDetach (call_onClose w a) = onDetach w"
  "nextFn (call_onClose w a) = nextFn w"
  by (simp_all add: call_onClose_def debugLog_def Let_def split: onCloseFn.splits)

lemma removeListener_fresh:
  "list_all (\<lambda>g. fid g < n) ls \<Longrightarrow> n \<le> fid f \<Longrightarrow> removeListener ls f = ls"
  by (induction ls) (auto simp: removeListener_def)

lemma listeners_wf_new_CDPAdapter:
  "listeners_wf w \<Longrightarrow> listeners_wf (snd (new_CDPAdapter w tabId))"
  by (auto simp: listeners_wf_def new_CDPAdapter_def bind_def addListener_def Let_def list_all_iff)

lemma listeners_wf_newWorld: "listeners_wf (newWorld ua)"
  by (simp add: listeners_wf_def newWorld_def)

lemma listeners_wf_detach:
  "listeners_wf w \<Longrightarrow> listeners_wf (snd (detach w a))"
  by (auto simp: listeners_wf_def detach_def chrome_debugger_detach_def bind_def Let_def
      removeListener_def call_onClose_listeners list_all_iff split: if_splits)

text \<open>
  Claim C9. The event listener of an adapter does not look at the source of an event:
  its result is the same for every source. Each event is logged and dispatched as
  {method, params, sessionId: 'dummy-session-id'}; with an open socket this object is
  appended to the frames sent on the socket of the bridge, whatever tab the event came
  from, also when Chrome delivers the event through the registered listener.
\<close>

theorem debugger_events_not_filtered:
  "onDebuggerEvent w a source method params = onDebuggerEvent w a source' method params \<and>
   onDebuggerEvent w a source method params =
     call_dispatch (debugLog ''CDP event:'' [LogValue method, LogValue params] w) a
       (JObject [(''method'', method), (''params'', params),
                 (''sessionId'', JString ''dummy-session-id'')]) \<and>
   (\<forall>s. dispatch (heap w a) = DispatchToSocket s \<and> readyState (sockets w s) = OPEN \<longrightarrow>
      sent (sockets (onDebuggerEvent w a source method params) s) =
        sent (sockets w s) @
          [JObject [(''method'', method), (''params'', params),
                    (''sessionId'', JString ''dummy-session-id'')]]) \<and>
   (\<forall>f s. onEvent w = [f] \<and> target f = OnDebuggerEvent \<and>
      dispatch (heap w (self f)) = DispatchToSocket s \<and> readyState (sockets w s) = OPEN \<longrightarrow>
      sent (sockets (chrome_debugger_onEvent w source m params) s) =
        sent (sockets w s) @
          [JObject [(''method'', JString m), (''params'', params),
                    (''sessionId'', JString ''dummy-session-id'')]])"
proof -
  have out: "\<And>a s method. dispatch (heap w a) = DispatchToSocket s \<Longrightarrow> readyState (sockets w s) = OPEN \<Longrightarrow>
      sent (sockets (onDebuggerEvent w a source method params) s) =
        sent (sockets w s) @
          [JObject [(''method'', method), (''params'', params),
                    (''sessionId'', JString ''dummy-session-id'')]]"
    by (simp add: onDebuggerEvent_def call_dispatch_def debugLog_def socket_send_def Let_def)
  have fire: "\<And>f s. onEvent w = [f] \<Longrightarrow> target f = OnDebuggerEvent \<Longrightarrow>
      dispatch (heap w (self f)) = DispatchToSocket s \<Longrightarrow> readyState (sockets w s) = OPEN \<Longrightarrow>
      sent (sockets (chrome_debugger_onEvent w source m params) s) =
        sent (sockets w s) @
          [JObject [(''method'', JString m), (''params'', params),
                    (''sessionId'', JString ''dummy-session-id'')]]"
    by (simp add: chrome_debugger_onEvent_def call_bound_def out)
  show ?thesis using out fire by (simp add: onDebuggerEvent_def)
qed

theorem debugger_events_not_filtered_witness:
  "debuggee (heap bridged_world 0) = 7 \<and>
   sent (sockets (chrome_debugger_onEvent bridged_world 8 ''Page.loadEventFired'' (JObject [])) 0) =
     [JObject [(''method'', JString ''Page.loadEventFired''), (''params'', JObject []),
               (''sessionId'', JString ''dummy-session-id'')]]"
  using debugger_events_not_filtered[of bridged_world 0 8 "JString ''Page.loadEventFired''"
      "JObject []" 8 "''Page.loadEventFired''",
      THEN conjunct2, THEN conjunct2, THEN conjunct2, rule_format,
      of "\<lparr>fid = 0, target = OnDebuggerEvent, self = 0\<rparr>" 0]
  by (simp add: bridged_world_facts)

text \<open>
  Claim C10. \<open>detach\<close> hands \<open>removeListener\<close> function objects that \<open>bind\<close> has
  just made. None of them is registered, so the listeners of both events are the same
  before and after \<open>detach\<close>, whether the native detach succeeds or not; what the
  constructor registered stays registered.
\<close>

theorem detach_keeps_listeners:
  assumes "listeners_wf w"
  shows "onEvent (snd (detach w a)) = onEvent w \<and> onDetach (snd (detach w a)) = onDetach w"
proof (cases "debuggee (heap w a) \<in> attached w")
  case True
  have ev: "removeListener (onEvent w) \<lparr>fid = nextFn w, target = OnDebuggerEvent, self = a\<rparr> = onEvent w"
    using assms by (intro removeListener_fresh[where n = "nextFn w"]) (simp_all add: listeners_wf_def)
  have de: "removeListener (onDetach w) \<lparr>fid = Suc (nextFn w), target = OnDebuggerDetach, self = a\<rparr> = onDetach w"
    using assms by (intro removeListener_fresh[where n = "nextFn w"]) (simp_all add: listeners_wf_def)
  show ?thesis using True
    by (simp add: detach_def chrome_debugger_detach_def bind_def Let_def call_onClose_listeners ev de)
next
  case False
  then show ?thesis
    by (simp add: detach_def chrome_debugger_detach_def Let_def)
qed

theorem detach_keeps_listeners_witness:
  "listeners_wf bridged_world \<and>
   onEvent (snd (detach bridged_world 0)) = [\<lparr>fid = 0, target = OnDebuggerEvent, self = 0\<rparr>] \<and>
   onDetach (snd (detach bridged_world 0)) = [\<lparr>fid = 1, target = OnDebuggerDetach, self = 0\<rparr>]"
proof -
  have wf: "listeners_wf bridged_world"
    by (simp add: listeners_wf_def bridged_world_facts)
  from detach_keeps_listeners[OF wf, of 0] wf show ?thesis
    by (simp add: bridged_world_facts)
qed

text \<open>
  Claim C8 fails on the code. On the bridged tab, a native detach followed by the close
  event of the socket (which the first teardown itself brings about by closing the socket),
  or the error event of the socket followed by its close event, runs the teardown twice.
  The first run succeeds; in the second run \<open>detach\<close> calls \<open>chrome.debugger.detach\<close>
  again, on a tab that has no debugger attached any more, and is rejected.
\<close>

theorem second_teardown_rejected:
  "fst (socket_onerror bridged_world 0) = None \<and>
   fst (socket_onclose (snd (socket_onerror bridged_world 0)) 0) =
     Some (DebuggerError ''Debugger is not attached to the tab'') \<and>
   debuggerCalls (snd (socket_onclose (snd (socket_onerror bridged_world 0)) 0)) =
     debuggerCalls bridged_world @ [Detach 7, Detach 7] \<and>
   adapters (chrome_debugger_onDetach bridged_world 7 ''target_closed'') 7 = None \<and>
   readyState (sockets (chrome_debugger_onDetach bridged_world 7 ''target_closed'') 0) = CLOSING \<and>
   fst (socket_onclose (chrome_debugger_onDetach bridged_world 7 ''target_closed'') 0) =
     Some (DebuggerError ''Debugger is not attached to the tab'')"
proof -
  let ?w1 = "snd (socket_onerror bridged_world 0)"
  have e1: "socket_onerror bridged_world 0 = detach (debugLog ''WebSocket error:'' [] bridged_world) 0"
    by (simp add: socket_onerror_def bridged_world_facts)
  have d1: "fst (socket_onerror bridged_world 0) = None"
    "attached ?w1 = {}" "heap ?w1 0 = heap bridged_world 0"
    "socketListeners ?w1 0 = socketListeners bridged_world 0"
    "debuggerCalls ?w1 = debuggerCalls bridged_world @ [Detach 7]"
    unfolding e1
    by (simp_all add: detach_def chrome_debugger_detach_def debugLog_def bind_def Let_def
        removeListener_def call_onClose_def socket_close_def bridged_world_def)
  have c1: "fst (socket_onclose ?w1 0) = Some (DebuggerError ''Debugger is not attached to the tab'')"
    "debuggerCalls (snd (socket_onclose ?w1 0)) = debuggerCalls bridged_world @ [Detach 7, Detach 7]"
    by (simp_all add: socket_onclose_def Let_def d1 bridged_world_facts detach_def
        chrome_debugger_detach_def)
  let ?w2 = "chrome_debugger_onDetach bridged_world 7 ''target_closed''"
  have d2: "attached ?w2 = {}" "heap ?w2 0 = heap bridged_world 0"
    "socketListeners ?w2 0 = socketListeners bridged_world 0"
    "adapters ?w2 7 = None" "readyState (sockets ?w2 0) = CLOSING"
    by (simp_all add: chrome_debugger_onDetach_def call_bound_def onDebuggerDetach_def
        call_onClose_def debugLog_def socket_close_def Let_def bridged_world_def)
  have c2: "fst (socket_onclose ?w2 0) = Some (DebuggerError ''Debugger is not attached to the tab'')"
    by (simp add: socket_onclose_def Let_def d2 bridged_world_facts detach_def
        chrome_debugger_detach_def)
  show ?thesis using d1(1) c1 d2(4,5) c2 by simp
qed

end
